theory Spec2Isabelle
  imports Main
begin

section \<open>The backend as the component sees it\<close>

text \<open>
  \<^verbatim>\<open>App.js\<close> talks to the backend through three axios calls. Each call returns a
  promise; \<^verbatim>\<open>await\<close> either yields the response object (whose \<^verbatim>\<open>data\<close> field is the
  payload) or throws the error the promise was rejected with. The error is the single,
  undifferentiated "backend call failed" of the component.
\<close>

datatype error = AxiosError string

datatype 'a response = Response (data: 'a)

datatype 'a settled = Fulfilled 'a | Rejected error

fun await :: "'a settled \<Rightarrow> error + 'a" where
  "await (Fulfilled v) = Inr v"
| "await (Rejected e) = Inl e"

definition URL :: string where
  "URL = ''http://localhost:5000''"

text \<open>
  What a handler does besides updating the state: the HTTP requests it issues
  (\<open>Post\<close> carries the address and the two fields \<^verbatim>\<open>search_text\<close> and \<^verbatim>\<open>url\<close> of the body),
  the diagnostics it writes with \<^verbatim>\<open>console.error\<close>, the blocking \<^verbatim>\<open>alert\<close>s and the
  \<^verbatim>\<open>event.preventDefault()\<close> of the form submission. They are recorded in order, most
  recent last.
\<close>

datatype effect =
    Get string
  | Post string string string
  | ConsoleError string error
  | Alert string
  | PreventDefault

section \<open>The state of the component\<close>

text \<open>The four \<^verbatim>\<open>useState\<close> cells of \<^verbatim>\<open>App\<close>; \<open>'e\<close> is the opaque price-history entry.\<close>

record 'e UIState =
  showPriceHistory :: bool
  priceHistory :: "'e list"
  searchTexts :: "string list"
  newSearchText :: string

record 'e component =
  ui :: "'e UIState"
  effects :: "effect list"

definition App_init :: "'e component" where
  "App_init =
     \<lparr>ui = \<lparr>showPriceHistory = False, priceHistory = [], searchTexts = [], newSearchText = ''''\<rparr>,
      effects = []\<rparr>"

definition setShowPriceHistory :: "bool \<Rightarrow> 'e component \<Rightarrow> 'e component" where
  "setShowPriceHistory v c = c\<lparr>ui := (ui c)\<lparr>showPriceHistory := v\<rparr>\<rparr>"

definition setPriceHistory :: "'e list \<Rightarrow> 'e component \<Rightarrow> 'e component" where
  "setPriceHistory v c = c\<lparr>ui := (ui c)\<lparr>priceHistory := v\<rparr>\<rparr>"

definition setSearchTexts :: "string list \<Rightarrow> 'e component \<Rightarrow> 'e component" where
  "setSearchTexts v c = c\<lparr>ui := (ui c)\<lparr>searchTexts := v\<rparr>\<rparr>"

definition setNewSearchText :: "string \<Rightarrow> 'e component \<Rightarrow> 'e component" where
  "setNewSearchText v c = c\<lparr>ui := (ui c)\<lparr>newSearchText := v\<rparr>\<rparr>"

definition emit :: "effect \<Rightarrow> 'e component \<Rightarrow> 'e component" where
  "emit x c = c\<lparr>effects := effects c @ [x]\<rparr>"

section \<open>The handlers\<close>

text \<open>
  An \<^verbatim>\<open>async\<close> handler runs in two parts. The part before the \<^verbatim>\<open>await\<close> runs when the
  handler is invoked (\<open>_call\<close>): it issues the request. The part after it runs when the
  promise settles (\<open>_resume\<close>), on the state the component has by then. The result of
  \<open>_resume\<close> is \<open>Inr\<close> the new component, or \<open>Inl\<close> an error that escapes the handler.
  The \<^verbatim>\<open>try\<close>/\<^verbatim>\<open>catch\<close> is the case distinction on \<open>await\<close>: \<open>Inr\<close> continues the
  \<^verbatim>\<open>try\<close> block, \<open>Inl\<close> enters the \<^verbatim>\<open>catch\<close> block.

  The handler named after the source function is the whole function, run with no other
  event between the request and its outcome.
\<close>

definition fetchUniqueSearchTexts_call :: "'e component \<Rightarrow> 'e component" where
  "fetchUniqueSearchTexts_call c = emit (Get (URL @ ''/unique_search_texts'')) c"

definition fetchUniqueSearchTexts_resume ::
  "string list response settled \<Rightarrow> 'e component \<Rightarrow> error + 'e component" where
  "fetchUniqueSearchTexts_resume r c =
     (case await r of
        Inr response \<Rightarrow> Inr (setSearchTexts (data response) c)
      | Inl error \<Rightarrow> Inr (emit (ConsoleError ''Error fetching unique search texts:'' error) c))"

definition fetchUniqueSearchTexts ::
  "string list response settled \<Rightarrow> 'e component \<Rightarrow> error + 'e component" where
  "fetchUniqueSearchTexts r c = fetchUniqueSearchTexts_resume r (fetchUniqueSearchTexts_call c)"

definition handleSearchTextClick_call :: "string \<Rightarrow> 'e component \<Rightarrow> 'e component" where
  "handleSearchTextClick_call searchText c =
     emit (Get (URL @ ''/results?search_text='' @ searchText)) c"

definition handleSearchTextClick_resume ::
  "'e list response settled \<Rightarrow> 'e component \<Rightarrow> error + 'e component" where
  "handleSearchTextClick_resume r c =
     (case await r of
        Inr response \<Rightarrow> Inr (setShowPriceHistory True (setPriceHistory (data response) c))
      | Inl error \<Rightarrow> Inr (emit (ConsoleError ''Error fetching price history:'' error) c))"

definition handleSearchTextClick ::
  "string \<Rightarrow> 'e list response settled \<Rightarrow> 'e component \<Rightarrow> error + 'e component" where
  "handleSearchTextClick searchText r c =
     handleSearchTextClick_resume r (handleSearchTextClick_call searchText c)"

definition handlePriceHistoryClose :: "'e component \<Rightarrow> 'e component" where
  "handlePriceHistoryClose c = setPriceHistory [] (setShowPriceHistory False c)"

definition handleNewSearchTextChange :: "string \<Rightarrow> 'e component \<Rightarrow> 'e component" where
  "handleNewSearchTextChange v c = setNewSearchText v c"

text \<open>
  In \<^verbatim>\<open>handleNewSearchTextSubmit\<close> the names \<^verbatim>\<open>searchTexts\<close> and \<^verbatim>\<open>newSearchText\<close>
  are the constants of the render in which the form was submitted. The part after the
  \<^verbatim>\<open>await\<close> still reads those, so \<open>_resume\<close> takes them as arguments. The second argument
  of \<^verbatim>\<open>alert("Error starting scraper:", error)\<close> is not shown by \<^verbatim>\<open>alert\<close>.
\<close>

definition handleNewSearchTextSubmit_call :: "'e component \<Rightarrow> 'e component" where
  "handleNewSearchTextSubmit_call c =
     emit (Post (URL @ ''/start-scraper'') (newSearchText (ui c)) ''https://amazon.ca'')
       (emit PreventDefault c)"

definition handleNewSearchTextSubmit_resume ::
  "string list \<Rightarrow> string \<Rightarrow> 'a settled \<Rightarrow> 'e component \<Rightarrow> error + 'e component" where
  "handleNewSearchTextSubmit_resume searchTexts' newSearchText' r c =
     (case await r of
        Inr _ \<Rightarrow>
          Inr (setNewSearchText ''''
                (setSearchTexts (searchTexts' @ [newSearchText'])
                  (emit (Alert ''Scraper started successfully'') c)))
      | Inl error \<Rightarrow> Inr (emit (Alert ''Error starting scraper:'') c))"

definition handleNewSearchTextSubmit ::
  "'a settled \<Rightarrow> 'e component \<Rightarrow> error + 'e component" where
  "handleNewSearchTextSubmit r c =
     handleNewSearchTextSubmit_resume (searchTexts (ui c)) (newSearchText (ui c)) r
       (handleNewSearchTextSubmit_call c)"

section \<open>The component as an event-driven machine\<close>

text \<open>
  Between the request of an \<^verbatim>\<open>async\<close> handler and its outcome the user can act and
  other requests can settle. The machine keeps, beside the component, the handlers that
  are waiting for their promise (for the submission, with the two constants its closure
  captured) and the errors that escaped a handler (unhandled rejections).

  The events are the mount of the component (\<^verbatim>\<open>useEffect\<close> with no dependencies calls
  \<^verbatim>\<open>fetchUniqueSearchTexts\<close>), the four user actions wired in the JSX, and, for each kind
  of request, the settling of the waiting handler at a given position. An event that
  cannot occur (no such handler is waiting there) has no successor.
\<close>

datatype pending =
    AwaitUniqueSearchTexts
  | AwaitResults
  | AwaitStartScraper "string list" string

record 'e world =
  app :: "'e component"
  inflight :: "pending list"
  unhandled :: "error list"

definition init_world :: "'e world" where
  "init_world = \<lparr>app = App_init, inflight = [], unhandled = []\<rparr>"

datatype 'e event =
    Mount
  | SearchTextClick string
  | PriceHistoryClose
  | NewSearchTextChange string
  | NewSearchTextSubmit
  | UniqueSearchTextsSettled nat "string list response settled"
  | ResultsSettled nat "'e list response settled"
  | StartScraperSettled nat "unit response settled"

definition take_pending :: "nat \<Rightarrow> pending list \<Rightarrow> (pending \<times> pending list) option" where
  "take_pending i q = (if i < length q then Some (q ! i, take i q @ drop (Suc i) q) else None)"

definition finish :: "pending list \<Rightarrow> error + 'e component \<Rightarrow> 'e world \<Rightarrow> 'e world" where
  "finish q' res w =
     (case res of
        Inr c' \<Rightarrow> w\<lparr>app := c', inflight := q'\<rparr>
      | Inl e \<Rightarrow> w\<lparr>inflight := q', unhandled := unhandled w @ [e]\<rparr>)"

fun step :: "'e event \<Rightarrow> 'e world \<Rightarrow> 'e world option" where
  "step Mount w =
     Some (w\<lparr>app := fetchUniqueSearchTexts_call (app w),
             inflight := inflight w @ [AwaitUniqueSearchTexts]\<rparr>)"
| "step (SearchTextClick searchText) w =
     Some (w\<lparr>app := handleSearchTextClick_call searchText (app w),
             inflight := inflight w @ [AwaitResults]\<rparr>)"
| "step PriceHistoryClose w = Some (w\<lparr>app := handlePriceHistoryClose (app w)\<rparr>)"
| "step (NewSearchTextChange v) w = Some (w\<lparr>app := handleNewSearchTextChange v (app w)\<rparr>)"
| "step NewSearchTextSubmit w =
     Some (w\<lparr>app := handleNewSearchTextSubmit_call (app w),
             inflight := inflight w @
               [AwaitStartScraper (searchTexts (ui (app w))) (newSearchText (ui (app w)))]\<rparr>)"
| "step (UniqueSearchTextsSettled i r) w =
     (case take_pending i (inflight w) of
        Some (AwaitUniqueSearchTexts, q') \<Rightarrow>
          Some (finish q' (fetchUniqueSearchTexts_resume r (app w)) w)
      | _ \<Rightarrow> None)"
| "step (ResultsSettled i r) w =
     (case take_pending i (inflight w) of
        Some (AwaitResults, q') \<Rightarrow>
          Some (finish q' (handleSearchTextClick_resume r (app w)) w)
      | _ \<Rightarrow> None)"
| "step (StartScraperSettled i r) w =
     (case take_pending i (inflight w) of
        Some (AwaitStartScraper searchTexts' newSearchText', q') \<Rightarrow>
          Some (finish q' (handleNewSearchTextSubmit_resume searchTexts' newSearchText' r (app w)) w)
      | _ \<Rightarrow> None)"

fun run :: "'e event list \<Rightarrow> 'e world \<Rightarrow> 'e world option" where
  "run [] w = Some w"
| "run (ev # evs) w = (case step ev w of None \<Rightarrow> None | Some w' \<Rightarrow> run evs w')"

text \<open>
  The five operations of the specification are the five handlers, each run to its end
  before the next begins: an asynchronous one is its request followed at once by the
  outcome of that request.
\<close>

datatype 'e operation =
    LoadSearchTerms "string list response settled"
  | SelectSearchTerm string "'e list response settled"
  | ClosePriceHistory
  | EditNewSearchText string
  | SubmitNewSearchText "unit response settled"

fun events_of :: "'e operation \<Rightarrow> 'e event list" where
  "events_of (LoadSearchTerms r) = [Mount, UniqueSearchTextsSettled 0 r]"
| "events_of (SelectSearchTerm searchText r) = [SearchTextClick searchText, ResultsSettled 0 r]"
| "events_of ClosePriceHistory = [PriceHistoryClose]"
| "events_of (EditNewSearchText v) = [NewSearchTextChange v]"
| "events_of (SubmitNewSearchText r) = [NewSearchTextSubmit, StartScraperSettled 0 r]"

fun apply_operation :: "'e operation \<Rightarrow> 'e component \<Rightarrow> error + 'e component" where
  "apply_operation (LoadSearchTerms r) c = fetchUniqueSearchTexts r c"
| "apply_operation (SelectSearchTerm searchText r) c = handleSearchTextClick searchText r c"
| "apply_operation ClosePriceHistory c = Inr (handlePriceHistoryClose c)"
| "apply_operation (EditNewSearchText v) c = Inr (handleNewSearchTextChange v c)"
| "apply_operation (SubmitNewSearchText r) c = handleNewSearchTextSubmit r c"

fun apply_operations :: "'e operation list \<Rightarrow> 'e component \<Rightarrow> error + 'e component" where
  "apply_operations [] c = Inr c"
| "apply_operations (x # xs) c =
     (case apply_operation x c of Inl e \<Rightarrow> Inl e | Inr c' \<Rightarrow> apply_operations xs c')"

text \<open>
  The payload of the most recent successful history fetch of a sequence of events, and
  of a sequence of operations.
\<close>

fun fetched :: "'e list option \<Rightarrow> 'e event \<Rightarrow> 'e list option" where
  "fetched h (ResultsSettled i (Fulfilled response)) = Some (data response)"
| "fetched h _ = h"

definition last_fetched :: "'e event list \<Rightarrow> 'e list option" where
  "last_fetched evs = foldl fetched None evs"

text \<open>The history panel of the specification: open exactly when the table is rendered.\<close>

datatype panel = Closed | Open

definition panel_of :: "'e component \<Rightarrow> panel" where
  "panel_of c = (if showPriceHistory (ui c) then Open else Closed)"

text \<open>
  The conditional render \<^verbatim>\<open>{showPriceHistory && <PriceHistoryTable ... />}\<close>: the rows
  handed to the table when it is rendered, nothing when it is not.
\<close>

definition PriceHistoryTable :: "'e component \<Rightarrow> 'e list option" where
  "PriceHistoryTable c = (if showPriceHistory (ui c) then Some (priceHistory (ui c)) else None)"

text \<open>
  The transition relation as the specification words it, for comparison with the
  handlers: the three listed transitions, and no transition anywhere else.
\<close>

fun spec_panel_transition :: "panel \<Rightarrow> 'e operation \<Rightarrow> panel option" where
  "spec_panel_transition Closed (SelectSearchTerm searchText (Fulfilled response)) = Some Open"
| "spec_panel_transition Open ClosePriceHistory = Some Closed"
| "spec_panel_transition Open (SelectSearchTerm searchText (Fulfilled response)) = Some Open"
| "spec_panel_transition p x = None"

text \<open>
  The history fields agree with a fetched payload \<open>h\<close>: an open panel shows exactly
  that payload, a closed one holds no rows.
\<close>

definition panel_consistent :: "'e list option \<Rightarrow> 'e component \<Rightarrow> bool" where
  "panel_consistent h c =
     (if showPriceHistory (ui c) then h = Some (priceHistory (ui c)) else priceHistory (ui c) = [])"

section \<open>Basic facts\<close>

lemmas setter_defs =
  setShowPriceHistory_def setPriceHistory_def setSearchTexts_def setNewSearchText_def emit_def

lemmas handler_defs =
  fetchUniqueSearchTexts_def fetchUniqueSearchTexts_call_def fetchUniqueSearchTexts_resume_def
  handleSearchTextClick_def handleSearchTextClick_call_def handleSearchTextClick_resume_def
  handlePriceHistoryClose_def handleNewSearchTextChange_def
  handleNewSearchTextSubmit_def handleNewSearchTextSubmit_call_def
  handleNewSearchTextSubmit_resume_def

lemma fetchUniqueSearchTexts_resume_total: "\<exists>c'. fetchUniqueSearchTexts_resume r c = Inr c'"
  by (cases r) (simp_all add: fetchUniqueSearchTexts_resume_def)

lemma handleSearchTextClick_resume_total: "\<exists>c'. handleSearchTextClick_resume r c = Inr c'"
  by (cases r) (simp_all add: handleSearchTextClick_resume_def)

lemma handleNewSearchTextSubmit_resume_total:
  "\<exists>c'. handleNewSearchTextSubmit_resume xs x r c = Inr c'"
  by (cases r) (simp_all add: handleNewSearchTextSubmit_resume_def)

lemma apply_operation_total: "\<exists>c'. apply_operation x c = Inr c'"
proof (cases x)
  case (LoadSearchTerms r)
  then show ?thesis
    using fetchUniqueSearchTexts_resume_total by (simp add: fetchUniqueSearchTexts_def)
next
  case (SelectSearchTerm t r)
  then show ?thesis
    using handleSearchTextClick_resume_total by (simp add: handleSearchTextClick_def)
next
  case (SubmitNewSearchText r)
  then show ?thesis
    using handleNewSearchTextSubmit_resume_total by (simp add: handleNewSearchTextSubmit_def)
qed simp_all

lemma apply_operations_total: "\<exists>c'. apply_operations xs c = Inr c'"
proof (induction xs arbitrary: c)
  case Nil
  show ?case by simp
next
  case (Cons x xs)
  obtain c1 where "apply_operation x c = Inr c1"
    using apply_operation_total by blast
  with Cons.IH [of c1] show ?case by simp
qed

text \<open>An operation is a run of the machine that starts and ends with nothing in flight.\<close>

lemma take_pending_single: "take_pending 0 [p] = Some (p, [])"
  by (simp add: take_pending_def)

lemma run_events_of:
  assumes "inflight w = []" and "apply_operation x (app w) = Inr c'"
  shows "run (events_of x) w = Some (w\<lparr>app := c'\<rparr>)"
  using assms
  by (cases x)
     (simp_all add: take_pending_single finish_def fetchUniqueSearchTexts_def
        handleSearchTextClick_def handleNewSearchTextSubmit_def)

lemma run_append:
  "run (xs @ ys) w = (case run xs w of None \<Rightarrow> None | Some w' \<Rightarrow> run ys w')"
  by (induction xs arbitrary: w) (simp_all split: option.splits)

lemma run_operations:
  assumes "inflight w = []" and "apply_operations xs (app w) = Inr c'"
  shows "run (concat (map events_of xs)) w = Some (w\<lparr>app := c'\<rparr>)"
  using assms
proof (induction xs arbitrary: w)
  case Nil
  then show ?case by simp
next
  case (Cons x xs)
  obtain c1 where c1: "apply_operation x (app w) = Inr c1"
    using apply_operation_total by blast
  have first: "run (events_of x) w = Some (w\<lparr>app := c1\<rparr>)"
    using Cons.prems(1) c1 by (rule run_events_of)
  have rest: "run (concat (map events_of xs)) (w\<lparr>app := c1\<rparr>) = Some (w\<lparr>app := c1, app := c'\<rparr>)"
    using Cons.IH [of "w\<lparr>app := c1\<rparr>"] Cons.prems c1 by simp
  show ?case
    using first rest by (simp add: run_append)
qed

text \<open>The two invariants of the machine, over every run, interleaved or not.\<close>

lemma step_panel_consistent:
  assumes "step ev w = Some w'" and "panel_consistent h (app w)"
  shows "panel_consistent (fetched h ev) (app w')"
proof (cases ev)
  case (UniqueSearchTextsSettled i r)
  then show ?thesis
    using assms
    by (cases r)
       (auto simp: panel_consistent_def finish_def fetchUniqueSearchTexts_resume_def setter_defs
          split: option.splits pending.splits)
next
  case (ResultsSettled i r)
  then show ?thesis
    using assms
    by (cases r)
       (auto simp: panel_consistent_def finish_def handleSearchTextClick_resume_def setter_defs
          split: option.splits pending.splits)
next
  case (StartScraperSettled i r)
  then show ?thesis
    using assms
    by (cases r)
       (auto simp: panel_consistent_def finish_def handleNewSearchTextSubmit_resume_def
          setter_defs split: option.splits pending.splits)
qed (use assms in \<open>auto simp: panel_consistent_def handler_defs setter_defs\<close>)

lemma run_panel_consistent:
  assumes "run evs w = Some w'" and "panel_consistent h (app w)"
  shows "panel_consistent (foldl fetched h evs) (app w')"
  using assms
proof (induction evs arbitrary: w h)
  case Nil
  then show ?case by simp
next
  case (Cons ev evs)
  from Cons.prems(1) obtain w1 where w1: "step ev w = Some w1" and r: "run evs w1 = Some w'"
    by (auto split: option.splits)
  have "panel_consistent (fetched h ev) (app w1)"
    using w1 Cons.prems(2) by (rule step_panel_consistent)
  with r have "panel_consistent (foldl fetched (fetched h ev) evs) (app w')"
    by (rule Cons.IH)
  then show ?case by simp
qed

lemma unhandled_finish:
  assumes "\<exists>c'. res = Inr c'"
  shows "unhandled (finish q' res w) = unhandled w"
  using assms by (auto simp: finish_def)

lemma step_unhandled:
  assumes "step ev w = Some w'" and "unhandled w = []"
  shows "unhandled w' = []"
proof (cases ev)
  case (UniqueSearchTextsSettled i r)
  then show ?thesis
    using assms
    by (auto simp: unhandled_finish [OF fetchUniqueSearchTexts_resume_total]
          split: option.splits pending.splits)
next
  case (ResultsSettled i r)
  then show ?thesis
    using assms
    by (auto simp: unhandled_finish [OF handleSearchTextClick_resume_total]
          split: option.splits pending.splits)
next
  case (StartScraperSettled i r)
  then show ?thesis
    using assms
    by (auto simp: unhandled_finish [OF handleNewSearchTextSubmit_resume_total]
          split: option.splits pending.splits)
qed (use assms in auto)

lemma run_unhandled:
  assumes "run evs w = Some w'" and "unhandled w = []"
  shows "unhandled w' = []"
  using assms
proof (induction evs arbitrary: w)
  case Nil
  then show ?case by simp
next
  case (Cons ev evs)
  from Cons.prems(1) obtain w1 where w1: "step ev w = Some w1" and r: "run evs w1 = Some w'"
    by (auto split: option.splits)
  from w1 Cons.prems(2) have "unhandled w1 = []" by (rule step_unhandled)
  with r show ?case by (rule Cons.IH)
qed

section \<open>Submitting a new search text\<close>

text \<open>
  C1. From every state, a submission whose backend call succeeds clears
  \<open>newSearchText\<close> and makes \<open>searchTexts\<close> the list before the submission followed by
  exactly one more element, the \<open>newSearchText\<close> before the submission; the elements
  before it and their order are kept, and the history fields are not touched. The
  second half says the same when the response arrives later, on any component \<open>d\<close>:
  the list and the text are those of the state \<open>c\<close> in which the form was submitted.
\<close>

theorem submit_success_appends_and_clears:
  "(\<exists>c'. handleNewSearchTextSubmit (Fulfilled response) c = Inr c' \<and>
         newSearchText (ui c') = '''' \<and>
         searchTexts (ui c') = searchTexts (ui c) @ [newSearchText (ui c)] \<and>
         length (searchTexts (ui c')) = Suc (length (searchTexts (ui c))) \<and>
         showPriceHistory (ui c') = showPriceHistory (ui c) \<and>
         priceHistory (ui c') = priceHistory (ui c)) \<and>
   (\<exists>d'. handleNewSearchTextSubmit_resume (searchTexts (ui c)) (newSearchText (ui c))
           (Fulfilled response) d = Inr d' \<and>
         newSearchText (ui d') = '''' \<and>
         searchTexts (ui d') = searchTexts (ui c) @ [newSearchText (ui c)])"
  by (simp add: handleNewSearchTextSubmit_def handleNewSearchTextSubmit_call_def
        handleNewSearchTextSubmit_resume_def setter_defs)

text \<open>
  C2. From every state, a submission whose backend call fails leaves \<open>searchTexts\<close> and
  \<open>newSearchText\<close> (indeed the whole UI state) as they were: the input is not cleared.
  The only trace is the error alert, after the suppressed default and the request.
\<close>

theorem submit_failure_keeps_fields:
  "\<exists>c'. handleNewSearchTextSubmit (Rejected e) c = Inr c' \<and>
        searchTexts (ui c') = searchTexts (ui c) \<and>
        newSearchText (ui c') = newSearchText (ui c) \<and>
        ui c' = ui c \<and>
        effects c' = effects c @
          [PreventDefault,
           Post (URL @ ''/start-scraper'') (newSearchText (ui c)) ''https://amazon.ca'',
           Alert ''Error starting scraper:'']"
  by (simp add: handleNewSearchTextSubmit_def handleNewSearchTextSubmit_call_def
        handleNewSearchTextSubmit_resume_def setter_defs)

section \<open>Selecting a search term and closing the panel\<close>

text \<open>
  C3. From every state and for every term, a selection whose backend call succeeds
  replaces \<open>priceHistory\<close> by the payload and sets \<open>showPriceHistory\<close>, both in the one
  state the handler returns, and changes nothing else of the UI state. A selection
  whose backend call fails leaves the whole UI state unchanged, so the panel does not
  open; it writes one diagnostic.
\<close>

theorem select_success_opens_failure_keeps:
  "(\<exists>c'. handleSearchTextClick searchText (Fulfilled response) c = Inr c' \<and>
         ui c' = (ui c)\<lparr>priceHistory := data response, showPriceHistory := True\<rparr> \<and>
         priceHistory (ui c') = data response \<and> showPriceHistory (ui c') = True) \<and>
   (\<exists>c'. handleSearchTextClick searchText (Rejected e) c = Inr c' \<and>
         ui c' = ui c \<and>
         showPriceHistory (ui c') = showPriceHistory (ui c) \<and>
         effects c' = effects c @
           [Get (URL @ ''/results?search_text='' @ searchText),
            ConsoleError ''Error fetching price history:'' e])"
  by (simp add: handleSearchTextClick_def handleSearchTextClick_call_def
        handleSearchTextClick_resume_def setter_defs)

text \<open>
  C4. From every state, closing the panel gives \<open>showPriceHistory = False\<close> and
  \<open>priceHistory = []\<close>. It is a plain function of the state: it issues no request and
  writes nothing (the effects are unchanged), it has no error result, and it keeps the
  other two fields.
\<close>

theorem close_resets_history:
  "showPriceHistory (ui (handlePriceHistoryClose c)) = False \<and>
   priceHistory (ui (handlePriceHistoryClose c)) = [] \<and>
   searchTexts (ui (handlePriceHistoryClose c)) = searchTexts (ui c) \<and>
   newSearchText (ui (handlePriceHistoryClose c)) = newSearchText (ui c) \<and>
   effects (handlePriceHistoryClose c) = effects c"
  by (simp add: handlePriceHistoryClose_def setter_defs)

section \<open>Loading the search terms\<close>

text \<open>
  C5. From every state, a load whose backend call succeeds makes \<open>searchTexts\<close> the
  returned list itself, in the order received, and keeps the other fields. A load whose
  backend call fails keeps the UI state; on the first load that is the empty list.
\<close>

theorem load_success_replaces_failure_keeps:
  "(\<exists>c'. fetchUniqueSearchTexts (Fulfilled response) c = Inr c' \<and>
         searchTexts (ui c') = data response \<and>
         ui c' = (ui c)\<lparr>searchTexts := data response\<rparr>) \<and>
   (\<exists>c'. fetchUniqueSearchTexts (Rejected e) c = Inr c' \<and>
         searchTexts (ui c') = searchTexts (ui c) \<and> ui c' = ui c) \<and>
   (\<exists>c'. fetchUniqueSearchTexts (Rejected e) (App_init :: 'e component) = Inr c' \<and>
         searchTexts (ui c') = [])"
  by (simp add: fetchUniqueSearchTexts_def fetchUniqueSearchTexts_call_def
        fetchUniqueSearchTexts_resume_def setter_defs App_init_def)

section \<open>The history panel\<close>

text \<open>
  C6. The history panel moves as the specification's transition relation says, and only
  so: for each of the five operations and from every state, the panel after the
  operation is the target of the listed transition when one is listed, and the panel
  before it when none is. The listed transitions, each spelled out: a successful
  selection ends in Open from either state, with the payload as the new
  \<open>priceHistory\<close>; closing ends in Closed; a failed selection keeps the panel.
\<close>

theorem panel_follows_spec_transitions:
  "(\<exists>c'. apply_operation x c = Inr c' \<and>
         panel_of c' =
           (case spec_panel_transition (panel_of c) x of Some p \<Rightarrow> p | None \<Rightarrow> panel_of c)) \<and>
   (\<exists>c'. handleSearchTextClick searchText (Fulfilled response) c = Inr c' \<and>
         panel_of c' = Open \<and> priceHistory (ui c') = data response) \<and>
   panel_of (handlePriceHistoryClose c) = Closed \<and>
   (\<exists>c'. handleSearchTextClick searchText (Rejected e) c = Inr c' \<and> panel_of c' = panel_of c)"
proof -
  have "\<exists>c'. apply_operation x c = Inr c' \<and>
         panel_of c' =
           (case spec_panel_transition (panel_of c) x of Some p \<Rightarrow> p | None \<Rightarrow> panel_of c)"
  proof (cases x)
    case (LoadSearchTerms r)
    then show ?thesis
      by (cases r) (simp_all add: panel_of_def handler_defs setter_defs)
  next
    case (SelectSearchTerm t r)
    then show ?thesis
      by (cases r) (simp_all add: panel_of_def handler_defs setter_defs)
  next
    case ClosePriceHistory
    then show ?thesis
      by (simp add: panel_of_def handler_defs setter_defs)
  next
    case (EditNewSearchText v)
    then show ?thesis
      by (simp add: panel_of_def handler_defs setter_defs)
  next
    case (SubmitNewSearchText r)
    then show ?thesis
      by (cases r) (simp_all add: panel_of_def handler_defs setter_defs)
  qed
  then show ?thesis
    by (simp add: panel_of_def handler_defs setter_defs)
qed

text \<open>
  C7. Every sequence of the five operations from the initial state is a run of the
  machine and ends in a state where: if the panel is shown, \<open>priceHistory\<close> is the
  payload of the most recent successful history fetch of the sequence; if it is not
  shown, \<open>priceHistory\<close> is empty (no closed panel with rows left); and closing from
  there resets both fields together.
\<close>

theorem history_panel_invariant:
  "\<exists>w. run (concat (map events_of ops)) init_world = Some w \<and>
        apply_operations ops App_init = Inr (app w) \<and>
        (showPriceHistory (ui (app w)) \<longrightarrow>
           last_fetched (concat (map events_of ops)) = Some (priceHistory (ui (app w)))) \<and>
        (\<not> showPriceHistory (ui (app w)) \<longrightarrow> priceHistory (ui (app w)) = []) \<and>
        showPriceHistory (ui (handlePriceHistoryClose (app w))) = False \<and>
        priceHistory (ui (handlePriceHistoryClose (app w))) = []"
proof -
  obtain c' where c': "apply_operations ops App_init = Inr c'"
    using apply_operations_total by blast
  let ?w = "init_world\<lparr>app := c'\<rparr>"
  have r: "run (concat (map events_of ops)) init_world = Some ?w"
    using run_operations [of init_world ops c'] c' by (simp add: init_world_def)
  have "panel_consistent None (app init_world)"
    by (simp add: panel_consistent_def init_world_def App_init_def)
  with r have "panel_consistent (last_fetched (concat (map events_of ops))) (app ?w)"
    unfolding last_fetched_def by (rule run_panel_consistent)
  then have inv:
    "(showPriceHistory (ui c') \<longrightarrow>
        last_fetched (concat (map events_of ops)) = Some (priceHistory (ui c'))) \<and>
     (\<not> showPriceHistory (ui c') \<longrightarrow> priceHistory (ui c') = [])"
    by (simp add: panel_consistent_def)
  have cl: "showPriceHistory (ui (handlePriceHistoryClose c')) = False \<and>
            priceHistory (ui (handlePriceHistoryClose c')) = []"
    by (simp add: handlePriceHistoryClose_def setter_defs)
  show ?thesis
    using r c' inv cl by simp
qed

theorem history_panel_invariant_witness:
  "(\<exists>w. run (concat (map events_of
            [LoadSearchTerms (Fulfilled (Response [''kettle'', ''lamp''])),
             SelectSearchTerm ''kettle'' (Fulfilled (Response [(''2024-01-01'', 10 :: nat)]))]))
          init_world = Some w \<and>
        showPriceHistory (ui (app w)) \<and>
        priceHistory (ui (app w)) = [(''2024-01-01'', 10)] \<and>
        last_fetched (concat (map events_of
            [LoadSearchTerms (Fulfilled (Response [''kettle'', ''lamp''])),
             SelectSearchTerm ''kettle'' (Fulfilled (Response [(''2024-01-01'', 10 :: nat)]))]))
          = Some (priceHistory (ui (app w)))) \<and>
   (\<exists>w. run (concat (map events_of
            [LoadSearchTerms (Fulfilled (Response [''kettle'', ''lamp''])),
             SelectSearchTerm ''kettle'' (Fulfilled (Response [(''2024-01-01'', 10 :: nat)])),
             ClosePriceHistory]))
          init_world = Some w \<and>
        \<not> showPriceHistory (ui (app w)) \<and>
        priceHistory (ui (app w)) = [])"
proof -
  let ?load = "LoadSearchTerms (Fulfilled (Response [''kettle'', ''lamp'']))"
  let ?select = "SelectSearchTerm ''kettle'' (Fulfilled (Response [(''2024-01-01'', 10 :: nat)]))"
  obtain w1 where w1: "run (concat (map events_of [?load, ?select])) init_world = Some w1"
    and a1: "apply_operations [?load, ?select] App_init = Inr (app w1)"
    and i1: "showPriceHistory (ui (app w1)) \<longrightarrow>
       last_fetched (concat (map events_of [?load, ?select])) = Some (priceHistory (ui (app w1)))"
    using history_panel_invariant [of "[?load, ?select]"] by blast
  have "app w1 = projr (apply_operations [?load, ?select] App_init)"
    using a1 by simp
  then have s1: "showPriceHistory (ui (app w1))"
    and p1: "priceHistory (ui (app w1)) = [(''2024-01-01'', 10)]"
    by (simp_all add: handler_defs setter_defs App_init_def)
  obtain w2 where w2: "run (concat (map events_of [?load, ?select, ClosePriceHistory])) init_world = Some w2"
    and a2: "apply_operations [?load, ?select, ClosePriceHistory] App_init = Inr (app w2)"
    and i2: "\<not> showPriceHistory (ui (app w2)) \<longrightarrow> priceHistory (ui (app w2)) = []"
    using history_panel_invariant [of "[?load, ?select, ClosePriceHistory]"] by blast
  have "app w2 = projr (apply_operations [?load, ?select, ClosePriceHistory] App_init)"
    using a2 by simp
  then have s2: "\<not> showPriceHistory (ui (app w2))"
    by (simp add: handler_defs setter_defs App_init_def)
  from w1 s1 p1 i1 w2 s2 i2 show ?thesis
    by blast
qed



section \<open>Failures of the backend\<close>

text \<open>
  C9. Each of the three handlers that call the backend returns a component for every
  outcome of the call, never an escaping error; so does every sequence of operations,
  and the machine ends with no unhandled rejection. When the call fails, the UI state
  is returned unchanged, and what the handler leaves behind is its request followed
  by one diagnostic: a \<^verbatim>\<open>console.error\<close> for load and selection, an \<^verbatim>\<open>alert\<close> for the
  submission.
\<close>

theorem backend_failures_are_caught:
  "(\<exists>c'. fetchUniqueSearchTexts r1 c = Inr c') \<and>
   (\<exists>c'. handleSearchTextClick searchText r2 c = Inr c') \<and>
   (\<exists>c'. handleNewSearchTextSubmit r3 c = Inr c') \<and>
   (\<exists>c'. apply_operations ops c = Inr c') \<and>
   (\<exists>w. run (concat (map events_of ops)) init_world = Some w \<and> unhandled w = []) \<and>
   (\<exists>c'. fetchUniqueSearchTexts (Rejected e) c = Inr c' \<and> ui c' = ui c \<and>
         effects c' = effects c @
           [Get (URL @ ''/unique_search_texts''),
            ConsoleError ''Error fetching unique search texts:'' e]) \<and>
   (\<exists>c'. handleSearchTextClick searchText (Rejected e) c = Inr c' \<and> ui c' = ui c \<and>
         effects c' = effects c @
           [Get (URL @ ''/results?search_text='' @ searchText),
            ConsoleError ''Error fetching price history:'' e]) \<and>
   (\<exists>c'. handleNewSearchTextSubmit (Rejected e) c = Inr c' \<and> ui c' = ui c \<and>
         effects c' = effects c @
           [PreventDefault,
            Post (URL @ ''/start-scraper'') (newSearchText (ui c)) ''https://amazon.ca'',
            Alert ''Error starting scraper:''])"
proof -
  have t1: "\<exists>c'. fetchUniqueSearchTexts r1 c = Inr c'"
    using fetchUniqueSearchTexts_resume_total by (simp add: fetchUniqueSearchTexts_def)
  have t2: "\<exists>c'. handleSearchTextClick searchText r2 c = Inr c'"
    using handleSearchTextClick_resume_total by (simp add: handleSearchTextClick_def)
  have t3: "\<exists>c'. handleNewSearchTextSubmit r3 c = Inr c'"
    using handleNewSearchTextSubmit_resume_total by (simp add: handleNewSearchTextSubmit_def)
  have t4: "\<exists>c'. apply_operations ops c = Inr c'"
    by (rule apply_operations_total)
  obtain c0 :: "'a component" where c0: "apply_operations ops App_init = Inr c0"
    using apply_operations_total by blast
  have r: "run (concat (map events_of ops)) init_world = Some (init_world\<lparr>app := c0\<rparr>)"
    using run_operations [of init_world ops c0] c0 by (simp add: init_world_def)
  have "unhandled (init_world\<lparr>app := c0\<rparr>) = []"
    using r by (rule run_unhandled) (simp add: init_world_def)
  with r have t5: "\<exists>w. run (concat (map events_of ops)) init_world = Some w \<and> unhandled w = []"
    by blast
  have f1: "\<exists>c'. fetchUniqueSearchTexts (Rejected e) c = Inr c' \<and> ui c' = ui c \<and>
         effects c' = effects c @
           [Get (URL @ ''/unique_search_texts''),
            ConsoleError ''Error fetching unique search texts:'' e]"
    by (simp add: fetchUniqueSearchTexts_def fetchUniqueSearchTexts_call_def
          fetchUniqueSearchTexts_resume_def setter_defs)
  have f2: "\<exists>c'. handleSearchTextClick searchText (Rejected e) c = Inr c' \<and> ui c' = ui c \<and>
         effects c' = effects c @
           [Get (URL @ ''/results?search_text='' @ searchText),
            ConsoleError ''Error fetching price history:'' e]"
    by (simp add: handleSearchTextClick_def handleSearchTextClick_call_def
          handleSearchTextClick_resume_def setter_defs)
  have f3: "\<exists>c'. handleNewSearchTextSubmit (Rejected e) c = Inr c' \<and> ui c' = ui c \<and>
         effects c' = effects c @
           [PreventDefault,
            Post (URL @ ''/start-scraper'') (newSearchText (ui c)) ''https://amazon.ca'',
            Alert ''Error starting scraper:'']"
    by (simp add: handleNewSearchTextSubmit_def handleNewSearchTextSubmit_call_def
          handleNewSearchTextSubmit_resume_def setter_defs)
  from t1 t2 t3 t4 t5 f1 f2 f3 show ?thesis
    by (intro conjI)
qed

section \<open>An empty history\<close>

text \<open>
  C10. A successful selection whose payload is the empty list still shows the panel,
  with \<open>priceHistory = []\<close>: the table is rendered with no rows. Such a state is reached
  from the initial state by loading a list that holds the term and selecting it.
\<close>

theorem empty_history_opens_panel:
  "(\<exists>c'. handleSearchTextClick searchText (Fulfilled (Response [])) c = Inr c' \<and>
         showPriceHistory (ui c') = True \<and> priceHistory (ui c') = [] \<and>
         PriceHistoryTable c' = Some []) \<and>
   (\<exists>c'. apply_operations
           [LoadSearchTerms (Fulfilled (Response [searchText])),
            SelectSearchTerm searchText (Fulfilled (Response []))] App_init = Inr c' \<and>
         showPriceHistory (ui c') = True \<and> priceHistory (ui c') = [] \<and>
         PriceHistoryTable c' = Some [])"
  by (simp add: fetchUniqueSearchTexts_def fetchUniqueSearchTexts_call_def
        fetchUniqueSearchTexts_resume_def handleSearchTextClick_def
        handleSearchTextClick_call_def handleSearchTextClick_resume_def setter_defs
        PriceHistoryTable_def App_init_def)

section \<open>Requests in flight\<close>

text \<open>
  The two invariants hold in every run of the machine from the initial state, also when
  user actions and other outcomes come between a request and its outcome.
\<close>

lemma interleaved_panel_consistent:
  assumes "run evs init_world = Some w"
  shows "panel_consistent (last_fetched evs) (app w)"
proof -
  have "panel_consistent None (app (init_world :: 'a world))"
    by (simp add: panel_consistent_def init_world_def App_init_def)
  with assms show ?thesis
    unfolding last_fetched_def by (rule run_panel_consistent)
qed

lemma interleaved_no_unhandled:
  assumes "run evs init_world = Some w"
  shows "unhandled w = []"
  using assms by (rule run_unhandled) (simp add: init_world_def)

text \<open>
  The submission writes the list of the render in which the form was submitted. When
  the list changes while the request is in flight, the outcome of the submission
  replaces the newer list by the older one plus the submitted term: a list loaded in
  between is dropped, and of two submissions made before either outcome only one entry
  remains.
\<close>

lemma load_settles_during_submission:
  "\<exists>w. run [Mount, NewSearchTextChange t, NewSearchTextSubmit,
             UniqueSearchTextsSettled 0 (Fulfilled (Response xs)),
             StartScraperSettled 0 (Fulfilled response)] init_world = Some w \<and>
        searchTexts (ui (app w)) = [t] \<and> inflight w = [] \<and> unhandled w = []"
  by (simp add: init_world_def App_init_def take_pending_def finish_def
        fetchUniqueSearchTexts_call_def fetchUniqueSearchTexts_resume_def
        handleNewSearchTextChange_def handleNewSearchTextSubmit_call_def
        handleNewSearchTextSubmit_resume_def setter_defs)

lemma two_submissions_in_flight:
  "\<exists>w. run [NewSearchTextChange t, NewSearchTextSubmit, NewSearchTextSubmit,
             StartScraperSettled 0 (Fulfilled response1),
             StartScraperSettled 0 (Fulfilled response2)] init_world = Some w \<and>
        searchTexts (ui (app w)) = [t] \<and> inflight w = [] \<and> unhandled w = []"
  by (simp add: init_world_def App_init_def take_pending_def finish_def
        handleNewSearchTextChange_def handleNewSearchTextSubmit_call_def
        handleNewSearchTextSubmit_resume_def setter_defs)

text \<open>
  The scenario of the specification: load \<open>kettle\<close> and \<open>lamp\<close>, open the history of
  \<open>kettle\<close>, close it, submit \<open>fan\<close> with success, submit \<open>mug\<close> with failure.
\<close>

lemma scenario:
  "\<exists>c'. apply_operations
          [LoadSearchTerms (Fulfilled (Response [''kettle'', ''lamp''])),
           SelectSearchTerm ''kettle'' (Fulfilled (Response [(''2024-01-01'', 10 :: nat)])),
           ClosePriceHistory,
           EditNewSearchText ''fan'',
           SubmitNewSearchText (Fulfilled (Response ())),
           EditNewSearchText ''mug'',
           SubmitNewSearchText (Rejected (AxiosError ''500''))] App_init = Inr c' \<and>
        ui c' = \<lparr>showPriceHistory = False, priceHistory = [],
                  searchTexts = [''kettle'', ''lamp'', ''fan''], newSearchText = ''mug''\<rparr> \<and>
        filter (\<lambda>x. case x of Alert m \<Rightarrow> True | _ \<Rightarrow> False) (effects c') =
          [Alert ''Scraper started successfully'', Alert ''Error starting scraper:'']"
  by (simp add: App_init_def handler_defs setter_defs)

end
